theory Spec2Isabelle
  imports Complex_Main "HOL-Library.AList" "HOL-Library.Char_ord" "HOL-Library.List_Lexorder"
    "HOL-Library.Product_Lexorder"
begin

section \<open>Python values used by the program\<close>

text \<open>
  Text is a list of characters, a character being a code point below 256 (HTTP header
  names and values reach the program decoded as Latin-1); text with other code points is
  outside the model. A \<^verbatim>\<open>dict\<close> is an association list with the keys in insertion
  order; \<^verbatim>\<open>d[k] = v\<close> replaces the value of a key in place or appends a new key, which
  is \<^const>\<open>AList.update\<close>.
\<close>

type_synonym ('k, 'v) dict = "('k \<times> 'v) list"

definition dict_update :: "('k, 'v) dict \<Rightarrow> ('k, 'v) dict \<Rightarrow> ('k, 'v) dict" where
  \<comment> \<open>\<^verbatim>\<open>d.update(other)\<close>: the pairs of \<^verbatim>\<open>other\<close> are stored in its order.\<close>
  "dict_update d other = fold (\<lambda>kv. AList.update (fst kv) (snd kv)) other d"

definition lower_ascii :: "char \<Rightarrow> char" where
  \<comment> \<open>\<^verbatim>\<open>str.lower\<close> on the letters A to Z. No other 8-bit character is lowered to an
     ASCII letter, so comparing a lowered text with an ASCII literal needs no more.\<close>
  "lower_ascii c =
     (case map_of (zip ''ABCDEFGHIJKLMNOPQRSTUVWXYZ'' ''abcdefghijklmnopqrstuvwxyz'') c of
        Some l \<Rightarrow> l
      | None \<Rightarrow> c)"

definition py_isspace :: "char \<Rightarrow> bool" where
  \<comment> \<open>The characters \<^verbatim>\<open>str.strip()\<close> removes, among the first 256 code points.\<close>
  "py_isspace c =
     (c \<in> set [CHR 0x09, CHR 0x0A, CHR 0x0B, CHR 0x0C, CHR 0x0D, CHR 0x1C, CHR 0x1D,
                CHR 0x1E, CHR 0x1F, CHR 0x20, CHR 0x85, CHR 0xA0])"

definition strip :: "string \<Rightarrow> string" where
  "strip s = rev (dropWhile py_isspace (rev (dropWhile py_isspace s)))"

section \<open>The session manager (api/session\_manager.py)\<close>

text \<open>
  Instants (\<^verbatim>\<open>datetime\<close>) and durations (\<^verbatim>\<open>timedelta\<close>) are integers counting
  microseconds. Everything the manager reads from outside is a field of \<open>env\<close>:
  \<^item> \<open>clock e k\<close> is what the \<open>k\<close>-th call of \<^verbatim>\<open>datetime.now()\<close> returns;
  \<^item> \<open>strptime e s\<close> is \<^verbatim>\<open>datetime.strptime(s, '%Y-%m-%d %H:%M')\<close>, with
    \<open>None\<close> where the library raises \<^verbatim>\<open>ValueError\<close>;
  \<^item> \<open>getCookie e k\<close> is the outcome of the \<open>k\<close>-th POST to
    \<^verbatim>\<open>/Boka/getCookie\<close>;
  \<^item> \<open>occasion_bundles e k loc\<close> is the outcome of the \<open>k\<close>-th POST to
    \<^verbatim>\<open>/Boka/occasion-bundles\<close>, sent for location \<open>loc\<close>.
  The program is deterministic once these are fixed, so a statement for every \<open>env\<close>
  covers every behaviour of the remote service and of the clock.
\<close>

datatype cookie_reply =
    PostRaises
  | Reply int "(string \<times> string) list"

datatype json =
    JNull
  | JBool bool
  | JInt int
  | JFloat rat
  | JStr string
  | JList "json list"
  | JObj "(string \<times> json) list"

record response =
  status_code :: int
  body_text :: string
  body_json :: "json option"

datatype bundles_reply =
    RequestFails
  | Response response

record env =
  clock :: "nat \<Rightarrow> int"
  strptime :: "string \<Rightarrow> int option"
  getCookie :: "nat \<Rightarrow> cookie_reply"
  occasion_bundles :: "nat \<Rightarrow> int \<Rightarrow> bundles_reply"

text \<open>
  The mutable state: the manager's \<^verbatim>\<open>current_cookies\<close> and
  \<^verbatim>\<open>last_refresh_time\<close>, the cookie jar of the API object's own HTTP session, and
  three counters that index the environment: how often the clock was read and how many
  requests went to each endpoint.
\<close>

record state =
  current_cookies :: "(string, string) dict"
  last_refresh_time :: "int option"
  session_cookies :: "(string, string) dict"
  clock_reads :: nat
  getCookie_posts :: nat
  bundle_posts :: nat

definition refresh_interval :: int where
  \<comment> \<open>\<^verbatim>\<open>timedelta(minutes=5)\<close>\<close>
  "refresh_interval = 5 * 60 * 1000000"

definition expiry_warning :: int where
  \<comment> \<open>\<^verbatim>\<open>timedelta(minutes=15)\<close>\<close>
  "expiry_warning = 15 * 60 * 1000000"

definition now :: "env \<Rightarrow> state \<Rightarrow> int \<times> state" where
  "now e s = (clock e (clock_reads s), s\<lparr>clock_reads := Suc (clock_reads s)\<rparr>)"

definition update_cookies :: "env \<Rightarrow> (string, string) dict \<Rightarrow> state \<Rightarrow> bool \<times> state" where
  "update_cookies e new_cookies s =
     (if new_cookies \<noteq> [] then
        (case now e s of
           (t, s1) \<Rightarrow>
             (True, s1\<lparr>current_cookies := dict_update (current_cookies s) new_cookies,
                       last_refresh_time := Some t\<rparr>))
      else (False, s))"

definition get_current_cookies :: "state \<Rightarrow> (string, string) dict" where
  \<comment> \<open>\<^verbatim>\<open>self.current_cookies.copy()\<close>: values are immutable here, a copy is the value.\<close>
  "get_current_cookies s = current_cookies s"

definition get_earliest_cookie_expiration :: "env \<Rightarrow> state \<Rightarrow> int option" where
  "get_earliest_cookie_expiration e s =
     (case map_of (current_cookies s) ''LoginValid'' of
        None \<Rightarrow> None
      | Some login_valid \<Rightarrow> if login_valid \<noteq> [] then strptime e login_valid else None)"

definition should_refresh_cookies :: "env \<Rightarrow> state \<Rightarrow> bool \<times> state" where
  "should_refresh_cookies e s =
     (case (case last_refresh_time s of
              None \<Rightarrow> (False, s)
            | Some t \<Rightarrow> (case now e s of (n, s') \<Rightarrow> (n - t > refresh_interval, s'))) of
        (interval_passed, s1) \<Rightarrow>
          if interval_passed then (True, s1)
          else
            (case get_earliest_cookie_expiration e s1 of
               None \<Rightarrow> (False, s1)
             | Some earliest_expiration \<Rightarrow>
                 (case now e s1 of
                    (n, s2) \<Rightarrow> (earliest_expiration - n < expiry_warning, s2))))"

definition header_cookie :: "string \<times> string \<Rightarrow> (string, string) dict \<Rightarrow> (string, string) dict" where
  \<comment> \<open>The body of the loop over \<^verbatim>\<open>response.headers.items()\<close>.\<close>
  "header_cookie hv new_cookies =
     (if map lower_ascii (fst hv) = ''set-cookie'' then
        if CHR ''='' \<in> set (snd hv) then
          (let name_value = takeWhile (\<lambda>c. c \<noteq> CHR '';'') (snd hv) in
           if CHR ''='' \<in> set name_value then
             AList.update
               (strip (takeWhile (\<lambda>c. c \<noteq> CHR ''='') name_value))
               (strip (tl (dropWhile (\<lambda>c. c \<noteq> CHR ''='') name_value)))
               new_cookies
           else new_cookies)
        else new_cookies
      else new_cookies)"

definition header_cookies :: "(string \<times> string) list \<Rightarrow> (string, string) dict" where
  "header_cookies headers = fold header_cookie headers []"

definition refresh_cookies_proactively :: "env \<Rightarrow> state \<Rightarrow> bool \<times> state" where
  \<comment> \<open>Writing the cookies to the configuration file is not part of the state: a failure
     there is caught and printed, and the call returns \<^verbatim>\<open>True\<close> all the same.\<close>
  "refresh_cookies_proactively e s =
     (let s1 = s\<lparr>getCookie_posts := Suc (getCookie_posts s)\<rparr> in
      case getCookie e (getCookie_posts s) of
        PostRaises \<Rightarrow> (False, s1)
      | Reply code headers \<Rightarrow>
          if code = 200 then
            (let new_cookies = header_cookies headers in
             if new_cookies \<noteq> [] then
               (case now e s1 of
                  (t, s2) \<Rightarrow>
                    (True, s2\<lparr>current_cookies := dict_update (current_cookies s1) new_cookies,
                              last_refresh_time := Some t\<rparr>))
             else (False, s1))
          else (False, s1))"

definition ensure_fresh_cookies :: "env \<Rightarrow> state \<Rightarrow> bool \<times> state" where
  "ensure_fresh_cookies e s =
     (case should_refresh_cookies e s of
        (due, s1) \<Rightarrow> if due then refresh_cookies_proactively e s1 else (True, s1))"

datatype pattern =
    Lit string
  | DotStar string string

text \<open>
  \<^verbatim>\<open>re.search(p, text, re.IGNORECASE)\<close> for the two shapes of pattern the manager uses:
  a literal, and \<^verbatim>\<open>a.*b\<close> with literals \<open>a\<close> and \<open>b\<close>. The literals are in lower
  case and have no newline, so the search runs on the lowered text; \<^verbatim>\<open>.\<close> matches
  every character but the newline.
\<close>

fun starts_with :: "string \<Rightarrow> string \<Rightarrow> bool" where
  "starts_with [] t = True"
| "starts_with (p # ps) [] = False"
| "starts_with (p # ps) (c # cs) = (p = c \<and> starts_with ps cs)"

fun find_literal :: "string \<Rightarrow> string \<Rightarrow> bool" where
  "find_literal p [] = (p = [])"
| "find_literal p (c # cs) = (starts_with p (c # cs) \<or> find_literal p cs)"

fun find_dotstar :: "string \<Rightarrow> string \<Rightarrow> string \<Rightarrow> bool" where
  "find_dotstar a b [] = (a = [] \<and> b = [])"
| "find_dotstar a b (c # cs) =
     ((starts_with a (c # cs) \<and>
       find_literal b (takeWhile (\<lambda>x. x \<noteq> CHR 0x0A) (drop (length a) (c # cs)))) \<or>
      find_dotstar a b cs)"

fun re_search :: "pattern \<Rightarrow> string \<Rightarrow> bool" where
  "re_search (Lit p) t = find_literal p (map lower_ascii t)"
| "re_search (DotStar a b) t = find_dotstar a b (map lower_ascii t)"

definition expired_patterns :: "pattern list" where
  "expired_patterns =
     [DotStar ''session'' ''expired'',
      DotStar ''login'' ''required'',
      Lit ''unauthorized'',
      Lit ''401'',
      Lit ''403'',
      Lit ''nullreferenceexception'',
      DotStar ''status'' ''500'']"

definition is_session_expired :: "env \<Rightarrow> string option \<Rightarrow> state \<Rightarrow> bool \<times> state" where
  "is_session_expired e response_text s =
     (case should_refresh_cookies e s of
        (due, s1) \<Rightarrow>
          if due then
            (case refresh_cookies_proactively e s1 of
               (refreshed, s2) \<Rightarrow> if refreshed then (False, s2) else (True, s2))
          else
            (case response_text of
               None \<Rightarrow> (False, s1)
             | Some t \<Rightarrow>
                 if t \<noteq> [] \<and> list_ex (\<lambda>p. re_search p t) expired_patterns
                 then (True, s1) else (False, s1)))"

section \<open>The API client (api/trafikverket.py, helpers/helpers.py)\<close>

datatype error =
    HTTPStatus int
  | SessionExpiredError
  | RequestException
  | KeyError
  | IndexError
  | TypeError

text \<open>
  A parsed payload is a Python object built by \<^verbatim>\<open>json.loads\<close>: \<open>json\<close> above, a
  \<^verbatim>\<open>dict\<close> being the list of its items and a float its exact value. Subscripting
  raises as Python does: a missing key is \<^verbatim>\<open>KeyError\<close>, an empty sequence
  \<^verbatim>\<open>IndexError\<close>, an object of the wrong type \<^verbatim>\<open>TypeError\<close>.
\<close>

fun getitem :: "json \<Rightarrow> string \<Rightarrow> error + json" where
  "getitem (JObj items) k = (case map_of items k of None \<Rightarrow> Inl KeyError | Some v \<Rightarrow> Inr v)"
| "getitem _ k = Inl TypeError"

fun getitem0 :: "json \<Rightarrow> error + json" where
  "getitem0 (JList xs) = (case xs of [] \<Rightarrow> Inl IndexError | x # _ \<Rightarrow> Inr x)"
| "getitem0 (JStr s) = (case s of [] \<Rightarrow> Inl IndexError | c # _ \<Rightarrow> Inr (JStr [c]))"
| "getitem0 (JObj items) = Inl KeyError"
| "getitem0 _ = Inl TypeError"

fun py_iter :: "json \<Rightarrow> error + json list" where
  "py_iter (JList xs) = Inr xs"
| "py_iter (JObj items) = Inr (map (\<lambda>kv. JStr (fst kv)) items)"
| "py_iter (JStr s) = Inr (map (\<lambda>c. JStr [c]) s)"
| "py_iter _ = Inl TypeError"

fun equals_200 :: "json \<Rightarrow> bool" where
  "equals_200 (JInt n) = (n = 200)"
| "equals_200 (JFloat q) = (q = 200)"
| "equals_200 _ = False"

fun comprehension :: "('a \<Rightarrow> error + 'b) \<Rightarrow> 'a list \<Rightarrow> error + 'b list" where
  \<comment> \<open>\<^verbatim>\<open>[f(x) for x in xs]\<close>, stopping at the first element that raises.\<close>
  "comprehension f [] = Inr []"
| "comprehension f (x # xs) =
     (case f x of
        Inl err \<Rightarrow> Inl err
      | Inr y \<Rightarrow> (case comprehension f xs of Inl err \<Rightarrow> Inl err | Inr ys \<Rightarrow> Inr (y # ys)))"

definition occasion_field :: "string \<Rightarrow> json \<Rightarrow> error + json" where
  \<comment> \<open>\<^verbatim>\<open>ride["occasions"][0][field]\<close>\<close>
  "occasion_field field ride =
     (case getitem ride ''occasions'' of
        Inl err \<Rightarrow> Inl err
      | Inr occasions \<Rightarrow>
          (case getitem0 occasions of Inl err \<Rightarrow> Inl err | Inr occasion \<Rightarrow> getitem occasion field))"

definition dates_found :: "json \<Rightarrow> error + json list" where
  "dates_found available_rides =
     (case py_iter available_rides of
        Inl err \<Rightarrow> Inl err
      | Inr rides \<Rightarrow> comprehension (occasion_field ''date'') rides)"

definition strip_ride :: "json \<Rightarrow> error + (string, json) dict" where
  \<comment> \<open>The dict display of \<^verbatim>\<open>strip_useless_info\<close>; its values are evaluated in order.\<close>
  "strip_ride ride =
     (case occasion_field ''time'' ride of
        Inl err \<Rightarrow> Inl err
      | Inr t \<Rightarrow>
     (case occasion_field ''locationName'' ride of
        Inl err \<Rightarrow> Inl err
      | Inr l \<Rightarrow>
     (case occasion_field ''cost'' ride of
        Inl err \<Rightarrow> Inl err
      | Inr c \<Rightarrow>
     (case occasion_field ''date'' ride of
        Inl err \<Rightarrow> Inl err
      | Inr d \<Rightarrow>
     (case occasion_field ''name'' ride of
        Inl err \<Rightarrow> Inl err
      | Inr n \<Rightarrow>
          Inr [(''time'', t), (''location'', l), (''cost'', c), (''date'', d),
               (''name'', n)])))))"

definition strip_useless_info :: "json \<Rightarrow> error + (string, json) dict list" where
  "strip_useless_info rides =
     (case py_iter rides of
        Inl err \<Rightarrow> Inl err
      | Inr rs \<Rightarrow> comprehension strip_ride rs)"

definition update_session_cookies :: "state \<Rightarrow> state" where
  "update_session_cookies s = s\<lparr>session_cookies := get_current_cookies s\<rparr>"

definition ensure_fresh_session :: "env \<Rightarrow> state \<Rightarrow> state" where
  \<comment> \<open>A failed refresh only prints a warning.\<close>
  "ensure_fresh_session e s =
     (case ensure_fresh_cookies e s of (fresh, s1) \<Rightarrow> update_session_cookies s1)"

definition handle_session_error :: "env \<Rightarrow> string \<Rightarrow> state \<Rightarrow> bool \<times> state" where
  "handle_session_error e response_text s =
     (case is_session_expired e (Some response_text) s of
        (expired, s1) \<Rightarrow>
          if expired then
            (case refresh_cookies_proactively e s1 of
               (refreshed, s2) \<Rightarrow>
                 if refreshed then (True, update_session_cookies s2) else (False, s2))
          else (False, s1))"

definition post_occasion_bundles :: "env \<Rightarrow> int \<Rightarrow> state \<Rightarrow> (error + response) \<times> state" where
  \<comment> \<open>\<^verbatim>\<open>self.session.post(...)\<close>: a transport failure raises out of the caller.\<close>
  "post_occasion_bundles e location_id s =
     (let s1 = s\<lparr>bundle_posts := Suc (bundle_posts s)\<rparr> in
      case occasion_bundles e (bundle_posts s) location_id of
        RequestFails \<Rightarrow> (Inl RequestException, s1)
      | Response r \<Rightarrow> (Inr r, s1))"

definition session_failure :: "env \<Rightarrow> response \<Rightarrow> state \<Rightarrow> (error + json) \<times> state" where
  \<comment> \<open>The two places that end in
     \<^verbatim>\<open>if self._handle_session_error(response_text): raise SessionExpiredError(...)
       else: raise HTTPStatus(r.status_code)\<close>.\<close>
  "session_failure e r s =
     (case handle_session_error e (body_text r) s of
        (refreshed, s1) \<Rightarrow>
          if refreshed then (Inl SessionExpiredError, s1)
          else (Inl (HTTPStatus (status_code r)), s1))"

definition handle_response :: "env \<Rightarrow> bool \<Rightarrow> response \<Rightarrow> state \<Rightarrow> (error + json) \<times> state" where
  \<comment> \<open>The part of \<^verbatim>\<open>get_available_dates\<close> under \<^verbatim>\<open># Handle response\<close>.
     \<open>body_json r = None\<close> is \<^verbatim>\<open>r.json()\<close> raising \<^verbatim>\<open>ValueError\<close>, the only
     exception the \<^verbatim>\<open>except\<close> clause catches.\<close>
  "handle_response e extended_information r s =
     (if status_code r = 200 then
        (case body_json r of
           None \<Rightarrow> session_failure e r s
         | Some response_data \<Rightarrow>
             (case getitem response_data ''status'' of
                Inl err \<Rightarrow> (Inl err, s)
              | Inr st \<Rightarrow>
                  if equals_200 st then
                    (case getitem response_data ''data'' of
                       Inl err \<Rightarrow> (Inl err, s)
                     | Inr d \<Rightarrow>
                         (case getitem d ''bundles'' of
                            Inl err \<Rightarrow> (Inl err, s)
                          | Inr available_rides \<Rightarrow>
                              (case dates_found available_rides of
                                 Inl err \<Rightarrow> (Inl err, s)
                               | Inr dates \<Rightarrow>
                                   if extended_information then (Inr available_rides, s)
                                   else (Inr (JList dates), s))))
                  else session_failure e r s))
      else (Inl (HTTPStatus (status_code r)), s))"

definition get_available_dates :: "env \<Rightarrow> int \<Rightarrow> bool \<Rightarrow> state \<Rightarrow> (error + json) \<times> state" where
  "get_available_dates e location_id extended_information s =
     (case post_occasion_bundles e location_id (ensure_fresh_session e s) of
        (Inl err, s2) \<Rightarrow> (Inl err, s2)
      | (Inr r, s2) \<Rightarrow>
          (case handle_session_error e (body_text r) s2 of
             (refreshed, s3) \<Rightarrow>
               if refreshed then
                 (case post_occasion_bundles e location_id s3 of
                    (Inl err, s4) \<Rightarrow> (Inl err, s4)
                  | (Inr r', s4) \<Rightarrow> handle_response e extended_information r' s4)
               else handle_response e extended_information r s3))"

definition fetch_stripped :: "env \<Rightarrow> int \<Rightarrow> state \<Rightarrow> (error + (string, json) dict list) \<times> state" where
  \<comment> \<open>The expression of the monitoring loop:
     \<^verbatim>\<open>helpers.strip_useless_info(trafikverket_api.get_available_dates(location_id,
       extended_information=True))\<close>.\<close>
  "fetch_stripped e location_id s =
     (case get_available_dates e location_id True s of
        (Inl err, s') \<Rightarrow> (Inl err, s')
      | (Inr rides, s') \<Rightarrow> (strip_useless_info rides, s'))"

section \<open>The ride database (helpers/database.py)\<close>

text \<open>
  A ride as \<^verbatim>\<open>store_rides\<close> reads it: the five texts it binds to the columns. A row of
  the table \<^verbatim>\<open>rides\<close> keeps them as \<open>ride_columns\<close>, beside the surrogate key, the
  examination type and the two timestamps that SQLite fills in with
  \<^verbatim>\<open>CURRENT_TIMESTAMP\<close>. \<open>next_id\<close> is the \<^verbatim>\<open>AUTOINCREMENT\<close> sequence.
\<close>

record ride =
  name :: string
  date :: string
  time :: string
  location :: string
  cost :: string

record row =
  row_id :: nat
  ride_columns :: ride
  examination_type :: string
  created_at :: string
  updated_at :: string

record database =
  rows :: "row list"
  next_id :: nat

definition insert_ride :: "string \<Rightarrow> string \<Rightarrow> ride \<Rightarrow> database \<Rightarrow> database" where
  \<comment> \<open>One \<^verbatim>\<open>INSERT INTO rides\<close>, run when \<^verbatim>\<open>CURRENT_TIMESTAMP\<close> is \<open>stamp\<close>.\<close>
  "insert_ride exam stamp r db =
     db\<lparr>rows := rows db @
            [\<lparr>row_id = next_id db, ride_columns = r, examination_type = exam,
              created_at = stamp, updated_at = stamp\<rparr>],
        next_id := Suc (next_id db)\<rparr>"

definition store_rides :: "(nat \<Rightarrow> string) \<Rightarrow> ride list \<Rightarrow> string \<Rightarrow> database \<Rightarrow> database" where
  \<comment> \<open>\<open>current_timestamp i\<close> is the database's clock at the \<open>i\<close>-th insert of the call.\<close>
  "store_rides current_timestamp rides exam db =
     fold (\<lambda>ir. insert_ride exam (current_timestamp (fst ir)) (snd ir))
       (enumerate 0 rides)
       (db\<lparr>rows := filter (\<lambda>r. examination_type r \<noteq> exam) (rows db)\<rparr>)"

definition ride_dict :: "row \<Rightarrow> (string, string) dict" where
  \<comment> \<open>The dict \<^verbatim>\<open>get_all_rides\<close> builds from a selected row.\<close>
  "ride_dict r =
     [(''name'', name (ride_columns r)), (''date'', date (ride_columns r)), (''time'', time (ride_columns r)),
      (''location'', location (ride_columns r)), (''cost'', cost (ride_columns r)),
      (''created_at'', created_at r)]"

definition get_all_rides :: "database \<Rightarrow> string \<Rightarrow> (string, string) dict list" where
  \<comment> \<open>\<^verbatim>\<open>ORDER BY date DESC, time DESC\<close>; SQLite leaves the order of ties open, here
     it is that of a reversed stable sort.\<close>
  "get_all_rides db exam =
     map ride_dict
       (rev (sort_key (\<lambda>r. (date (ride_columns r), time (ride_columns r)))
          (filter (\<lambda>r. examination_type r = exam) (rows db))))"

definition get_rides_as_set :: "database \<Rightarrow> string \<Rightarrow> (string, string) dict set" where
  \<comment> \<open>\<^verbatim>\<open>{tuple(ride.items()) for ride in rides}\<close>\<close>
  "get_rides_as_set db exam = set (get_all_rides db exam)"

section \<open>The monitoring cycle (modes/monitor\_rides.py)\<close>

text \<open>
  \<^verbatim>\<open>run\<close> receives the API object as an argument and calls two of its methods. \<open>api\<close>
  gives their outcomes: \<open>fetch a k loc\<close> is what the \<open>k\<close>-th evaluation of
  \<^verbatim>\<open>helpers.strip_useless_info(trafikverket_api.get_available_dates(loc, extended_information=True))\<close>
  yields, the stripped rides or the exception raised, and \<open>refresh a k\<close> is the result
  of the \<open>k\<close>-th call of \<^verbatim>\<open>trafikverket_api.refresh_cookies_proactively()\<close>.
  \<^verbatim>\<open>constants.MAX_ATTEMPTS\<close> is a parameter.
\<close>

record api =
  fetch :: "nat \<Rightarrow> int \<Rightarrow> error + ride list"
  refresh :: "nat \<Rightarrow> bool"

record api_calls =
  fetches :: nat
  refreshes :: nat

definition fetched :: "api_calls \<Rightarrow> api_calls" where
  "fetched c = c\<lparr>fetches := Suc (fetches c)\<rparr>"

definition refreshed :: "api_calls \<Rightarrow> api_calls" where
  "refreshed c = c\<lparr>refreshes := Suc (refreshes c)\<rparr>"

fun attempts :: "api \<Rightarrow> int \<Rightarrow> nat \<Rightarrow> api_calls \<Rightarrow> ride list \<Rightarrow> error + api_calls \<times> ride list" where
  \<comment> \<open>\<^verbatim>\<open>for _ in range(MAX_ATTEMPTS)\<close> for one location; \<open>Inl\<close> is an exception that
     no handler of the loop catches and that leaves \<^verbatim>\<open>run\<close>.\<close>
  "attempts a location_id 0 c available_rides_list = Inr (c, available_rides_list)"
| "attempts a location_id (Suc n) c available_rides_list =
     (case fetch a (fetches c) location_id of
        Inr rides \<Rightarrow> Inr (fetched c, available_rides_list @ rides)
      | Inl SessionExpiredError \<Rightarrow>
          if refresh a (refreshes c) then
            (case fetch a (Suc (fetches c)) location_id of
               Inr rides \<Rightarrow> Inr (fetched (fetched (refreshed c)), available_rides_list @ rides)
             | Inl SessionExpiredError \<Rightarrow>
                 Inr (fetched (fetched (refreshed c)), available_rides_list)
             | Inl err \<Rightarrow> Inl err)
          else Inr (fetched (refreshed c), available_rides_list)
      | Inl (HTTPStatus code) \<Rightarrow> attempts a location_id n (fetched c) available_rides_list
      | Inl RequestException \<Rightarrow> attempts a location_id n (fetched c) available_rides_list
      | Inl err \<Rightarrow> Inl err)"

fun poll_locations :: "api \<Rightarrow> nat \<Rightarrow> int list \<Rightarrow> api_calls \<Rightarrow> ride list \<Rightarrow> error + api_calls \<times> ride list" where
  "poll_locations a max_attempts [] c available_rides_list = Inr (c, available_rides_list)"
| "poll_locations a max_attempts (location_id # ids) c available_rides_list =
     (case attempts a location_id max_attempts c available_rides_list of
        Inl err \<Rightarrow> Inl err
      | Inr (c', rides) \<Rightarrow> poll_locations a max_attempts ids c' rides)"

record monitor =
  calls :: api_calls
  db :: database
  last_available_rides :: "(string, string) dict set"

record changes =
  new_rides :: "(string, string) dict set"
  removed_rides :: "(string, string) dict set"

definition run_cycle ::
  "api \<Rightarrow> (nat \<Rightarrow> string) \<Rightarrow> nat \<Rightarrow> string \<Rightarrow> int list \<Rightarrow> monitor \<Rightarrow> error + changes \<times> monitor" where
  \<comment> \<open>One pass of the \<^verbatim>\<open>while 1\<close> loop of \<^verbatim>\<open>run\<close>, up to the sleep that ends it.
     The query for the next available ride only reads the database and is left out, as
     are the log lines.\<close>
  "run_cycle a current_timestamp max_attempts exam location_ids m =
     (case poll_locations a max_attempts location_ids (calls m) [] of
        Inl err \<Rightarrow> Inl err
      | Inr (c, available_rides_list) \<Rightarrow>
          (let db' = (if available_rides_list \<noteq> []
                      then store_rides current_timestamp available_rides_list exam (db m)
                      else db m);
               current_available_rides = get_rides_as_set db' exam
           in Inr (\<lparr>new_rides = current_available_rides - last_available_rides m,
                     removed_rides = last_available_rides m - current_available_rides\<rparr>,
                   \<lparr>calls = c, db = db', last_available_rides = current_available_rides\<rparr>)))"

section \<open>Notions used in the statements\<close>

text \<open>
  To say what the client does not read, a payload is compared with the same payload
  in which every bundle of \<^verbatim>\<open>data.bundles\<close> keeps only the first element of its
  \<^verbatim>\<open>occasions\<close> list, and an environment with the one whose availability endpoint
  sends these cut payloads (same status, same text).
\<close>

definition on_key :: "string \<Rightarrow> (json \<Rightarrow> json) \<Rightarrow> json \<Rightarrow> json" where
  "on_key k f j =
     (case j of
        JObj items \<Rightarrow> JObj (map (\<lambda>kv. if fst kv = k then (fst kv, f (snd kv)) else kv) items)
      | _ \<Rightarrow> j)"

definition on_elements :: "(json \<Rightarrow> json) \<Rightarrow> json \<Rightarrow> json" where
  "on_elements f j = (case j of JList xs \<Rightarrow> JList (map f xs) | _ \<Rightarrow> j)"

definition keep_first :: "json \<Rightarrow> json" where
  "keep_first j = (case j of JList (x # xs) \<Rightarrow> JList [x] | _ \<Rightarrow> j)"

definition first_occasions_only :: "json \<Rightarrow> json" where
  "first_occasions_only = on_elements (on_key ''occasions'' keep_first)"

definition cut_payload :: "json \<Rightarrow> json" where
  "cut_payload = on_key ''data'' (on_key ''bundles'' first_occasions_only)"

definition cut_response :: "response \<Rightarrow> response" where
  "cut_response r = r\<lparr>body_json := map_option cut_payload (body_json r)\<rparr>"

definition cut_reply :: "bundles_reply \<Rightarrow> bundles_reply" where
  "cut_reply b = (case b of RequestFails \<Rightarrow> RequestFails | Response r \<Rightarrow> Response (cut_response r))"

definition cut_env :: "env \<Rightarrow> env" where
  "cut_env e = e\<lparr>occasion_bundles := (\<lambda>k loc. cut_reply (occasion_bundles e k loc))\<rparr>"

definition retried :: "error + ride list \<Rightarrow> bool" where
  \<comment> \<open>The outcomes after which the loop over the attempts goes on: the exceptions of
     \<^verbatim>\<open>except (HTTPStatus, requests.exceptions.RequestException)\<close>.\<close>
  "retried outcome =
     (case outcome of
        Inl (HTTPStatus code) \<Rightarrow> True
      | Inl RequestException \<Rightarrow> True
      | _ \<Rightarrow> False)"

definition renewal_fails :: "cookie_reply \<Rightarrow> bool" where
  \<comment> \<open>The outcomes of a renewal request on which \<open>refresh_cookies_proactively\<close> returns
     false.\<close>
  "renewal_fails reply =
     (case reply of
        PostRaises \<Rightarrow> True
      | Reply code headers \<Rightarrow> code \<noteq> 200 \<or> header_cookies headers = [])"

section \<open>Concrete states and environments\<close>

text \<open>
  The inputs at which the theorems below are evaluated. A response is given by its text
  and by the object \<^verbatim>\<open>r.json()\<close> returns for that text.
\<close>

definition fresh_state :: state where
  \<comment> \<open>No cookie, no refresh yet, nothing sent.\<close>
  "fresh_state =
     \<lparr>current_cookies = [], last_refresh_time = None, session_cookies = [],
      clock_reads = 0, getCookie_posts = 0, bundle_posts = 0\<rparr>"

definition merge_state :: state where
  \<comment> \<open>Two cookies and no refresh yet.\<close>
  "merge_state =
     \<lparr>current_cookies = [(''A'', ''1''), (''B'', ''2'')], last_refresh_time = None,
      session_cookies = [], clock_reads = 0, getCookie_posts = 0, bundle_posts = 0\<rparr>"

definition expiring_state :: state where
  \<comment> \<open>One cookie, \<^verbatim>\<open>LoginValid\<close>, and no refresh yet.\<close>
  "expiring_state =
     \<lparr>current_cookies = [(''LoginValid'', ''2025-06-20 16:48'')], last_refresh_time = None,
      session_cookies = [], clock_reads = 0, getCookie_posts = 0, bundle_posts = 0\<rparr>"

definition no_cookie_env :: env where
  \<comment> \<open>The renewal endpoint answers 200 with no \<^verbatim>\<open>Set-Cookie\<close> header.\<close>
  "no_cookie_env =
     \<lparr>clock = (\<lambda>k. 0), strptime = (\<lambda>s. None),
      getCookie = (\<lambda>k. Reply 200 [(''Content-Type'', ''application/json'')]),
      occasion_bundles = (\<lambda>k loc. RequestFails)\<rparr>"

definition no_bundles_text :: string where
  "no_bundles_text = ''{\"status\":200,\"data\":{\"bundles\":[]}}''"

definition unreachable_renewal_env :: env where
  \<comment> \<open>The clock stands one minute before the instant the cookie \<^verbatim>\<open>LoginValid\<close>
     names, no renewal request gets through, and the availability endpoint answers 200
     with an empty list of bundles.\<close>
  "unreachable_renewal_env =
     \<lparr>clock = (\<lambda>k. 0),
      strptime = (\<lambda>s. if s = ''2025-06-20 16:48'' then Some 60000000 else None),
      getCookie = (\<lambda>k. PostRaises),
      occasion_bundles = (\<lambda>k loc. Response
         \<lparr>status_code = 200, body_text = no_bundles_text,
          body_json = Some (JObj [(''status'', JInt 200),
                                  (''data'', JObj [(''bundles'', JList [])])])\<rparr>)\<rparr>"

definition answering :: "string \<Rightarrow> json option \<Rightarrow> env" where
  \<comment> \<open>The availability endpoint answers 200 with the given text, parsed as given; the
     renewal endpoint cannot be reached.\<close>
  "answering t parsed =
     \<lparr>clock = (\<lambda>k. 0), strptime = (\<lambda>s. None), getCookie = (\<lambda>k. PostRaises),
      occasion_bundles =
        (\<lambda>k loc. Response \<lparr>status_code = 200, body_text = t, body_json = parsed\<rparr>)\<rparr>"

definition null_reference_text :: string where
  "null_reference_text = ''{\"status\":500,\"type\":\"NullReferenceException\"}''"

definition null_reference_json :: json where
  "null_reference_json = JObj [(''status'', JInt 500), (''type'', JStr ''NullReferenceException'')]"

definition no_occasion_text :: string where
  "no_occasion_text = ''{\"status\":200,\"data\":{\"bundles\":[{\"occasions\":[]}]}}''"

definition no_occasion_json :: json where
  "no_occasion_json =
     JObj [(''status'', JInt 200),
           (''data'', JObj [(''bundles'', JList [JObj [(''occasions'', JList [])]])])]"

definition one_occasion_text :: string where
  "one_occasion_text =
     ''{\"status\":200,\"data\":{\"bundles\":[{\"occasions\":[{\"date\":\"2025-03-01\",\"time\":\"09:00\",\"locationName\":\"Stockholm\",\"cost\":\"500kr\",\"name\":\"X\"}]}]}}''"

definition one_occasion_json :: json where
  "one_occasion_json =
     JObj [(''status'', JInt 200),
           (''data'', JObj [(''bundles'', JList [JObj [(''occasions'', JList
              [JObj [(''date'', JStr ''2025-03-01''), (''time'', JStr ''09:00''),
                     (''locationName'', JStr ''Stockholm''), (''cost'', JStr ''500kr''),
                     (''name'', JStr ''X'')]])]])])]"

definition stockholm_ride :: ride where
  "stockholm_ride =
     \<lparr>name = ''Kunskapsprov B'', date = ''2025-01-15'', time = ''10:00'',
      location = ''Stockholm'', cost = ''325kr''\<rparr>"

definition empty_database :: database where
  "empty_database = \<lparr>rows = [], next_id = 1\<rparr>"

definition stored_before :: monitor where
  \<comment> \<open>The previous cycle stored one ride.\<close>
  "stored_before =
     \<lparr>calls = \<lparr>fetches = 0, refreshes = 0\<rparr>,
      db = \<lparr>rows = [\<lparr>row_id = 1, ride_columns = stockholm_ride,
                       examination_type = ''Kunskapsprov'',
                       created_at = ''2025-01-01 08:00:00'',
                       updated_at = ''2025-01-01 08:00:00''\<rparr>],
            next_id = 2\<rparr>,
      last_available_rides =
        {[(''name'', ''Kunskapsprov B''), (''date'', ''2025-01-15''), (''time'', ''10:00''),
          (''location'', ''Stockholm''), (''cost'', ''325kr''),
          (''created_at'', ''2025-01-01 08:00:00'')]}\<rparr>"

definition failing_api :: api where
  \<comment> \<open>Every request is answered with status 500.\<close>
  "failing_api = \<lparr>fetch = (\<lambda>k loc. Inl (HTTPStatus 500)), refresh = (\<lambda>k. False)\<rparr>"

definition serving_api :: api where
  \<comment> \<open>Every request is answered with the one ride.\<close>
  "serving_api = \<lparr>fetch = (\<lambda>k loc. Inr [stockholm_ride]), refresh = (\<lambda>k. False)\<rparr>"

section \<open>Facts about dictionaries\<close>

lemma map_of_dict_update:
  "map_of (dict_update d other) k =
     (case map_of (rev other) k of Some v \<Rightarrow> Some v | None \<Rightarrow> map_of d k)"
  unfolding dict_update_def
proof (induction other arbitrary: d)
  case Nil
  show ?case by simp
next
  case (Cons kv other)
  show ?case
    by (simp add: Cons.IH AList.update_conv' map_add_def split: option.splits)
qed

lemma keys_dict_update:
  "fst ` set (dict_update d other) = fst ` set d \<union> fst ` set other"
  unfolding dict_update_def
  by (induction other arbitrary: d) (auto simp: AList.dom_update)

lemma map_of_rev_distinct:
  "distinct (map fst other) \<Longrightarrow> map_of (rev other) = map_of other"
  by (rule ext) (metis distinct_rev map_of_inject_set rev_map set_rev)

section \<open>The session manager\<close>

text \<open>
  Claim C9. Merging a non-empty dict of new cookies (a dict has each key once) succeeds,
  and what \<open>get_current_cookies\<close> returns afterwards has every key it had before and
  every new key, holds every new pair, gives for every key of the new dict the new value,
  and gives for every other key the value it had.
\<close>

theorem update_cookies_merge:
  assumes "new_cookies \<noteq> []" and "distinct (map fst new_cookies)"
  shows "fst (update_cookies e new_cookies s) \<and>
         fst ` set (current_cookies s) \<union> fst ` set new_cookies
           \<subseteq> fst ` set (get_current_cookies (snd (update_cookies e new_cookies s))) \<and>
         set new_cookies \<subseteq> set (get_current_cookies (snd (update_cookies e new_cookies s))) \<and>
         (\<forall>k v. map_of new_cookies k = Some v \<longrightarrow>
            map_of (get_current_cookies (snd (update_cookies e new_cookies s))) k = Some v) \<and>
         (\<forall>k. map_of new_cookies k = None \<longrightarrow>
            map_of (get_current_cookies (snd (update_cookies e new_cookies s))) k
              = map_of (current_cookies s) k)"
proof -
  let ?after = "get_current_cookies (snd (update_cookies e new_cookies s))"
  have after: "?after = dict_update (current_cookies s) new_cookies"
    using assms(1) by (simp add: update_cookies_def get_current_cookies_def now_def)
  have look: "map_of ?after k =
      (case map_of new_cookies k of Some v \<Rightarrow> Some v | None \<Rightarrow> map_of (current_cookies s) k)" for k
    by (simp add: after map_of_dict_update map_of_rev_distinct [OF assms(2)])
  have pairs: "set new_cookies \<subseteq> set ?after"
  proof
    fix kv assume "kv \<in> set new_cookies"
    with assms(2) have "map_of new_cookies (fst kv) = Some (snd kv)"
      by (simp add: map_of_eq_Some_iff)
    then have "map_of ?after (fst kv) = Some (snd kv)" by (simp add: look)
    then have "(fst kv, snd kv) \<in> set ?after" by (rule map_of_SomeD)
    then show "kv \<in> set ?after" by simp
  qed
  have ok: "fst (update_cookies e new_cookies s)"
    using assms(1) by (simp add: update_cookies_def now_def)
  have keys: "fst ` set (current_cookies s) \<union> fst ` set new_cookies \<subseteq> fst ` set ?after"
    by (simp only: after keys_dict_update subset_refl)
  show ?thesis
    using ok keys pairs by (simp add: look)
qed

theorem update_cookies_merge_witness:
  "get_current_cookies
     (snd (update_cookies no_cookie_env [(''B'', ''3''), (''C'', ''4'')] merge_state))
     = [(''A'', ''1''), (''B'', ''3''), (''C'', ''4'')] \<and>
   set [(''B'', ''3''), (''C'', ''4'')]
     \<subseteq> set (get_current_cookies
              (snd (update_cookies no_cookie_env [(''B'', ''3''), (''C'', ''4'')] merge_state)))"
  using update_cookies_merge [of "[(''B'', ''3''), (''C'', ''4'')]" no_cookie_env merge_state]
  by (simp add: update_cookies_def get_current_cookies_def now_def dict_update_def merge_state_def)

text \<open>
  Claim C8. \<open>should_refresh_cookies\<close> answers true exactly when a last refresh time is
  recorded and the clock is more than the refresh interval past it, or the cookie
  \<^verbatim>\<open>LoginValid\<close> is present, not empty and parsed to an instant that is less than the
  warning threshold after the clock. With no last refresh time recorded there is no time
  since the last renewal, and only the second condition can hold. The second comparison
  reads the clock again, after the first one if that was made. The call changes nothing
  of the state but the number of clock readings.
\<close>

theorem should_refresh_cookies_due:
  "fst (should_refresh_cookies e s) =
     ((\<exists>t. last_refresh_time s = Some t \<and> clock e (clock_reads s) - t > refresh_interval) \<or>
      (\<exists>v x. map_of (current_cookies s) ''LoginValid'' = Some v \<and> v \<noteq> [] \<and>
             strptime e v = Some x \<and>
             x - clock e (if last_refresh_time s = None then clock_reads s
                          else Suc (clock_reads s)) < expiry_warning)) \<and>
   snd (should_refresh_cookies e s)
     = s\<lparr>clock_reads := clock_reads (snd (should_refresh_cookies e s))\<rparr>"
  by (cases "last_refresh_time s")
     (auto simp: should_refresh_cookies_def get_earliest_cookie_expiration_def now_def
           split: option.splits if_splits)

text \<open>
  Claim C7. When the renewal request raises, or is answered with a status other than 200
  (every status outside 2xx is one), or is answered with no cookie in its headers,
  \<open>refresh_cookies_proactively\<close> returns false and leaves the state as it was, the
  cookies and the last refresh time among it; only the count of requests sent has grown.
\<close>

theorem refresh_failure_keeps_state:
  assumes "getCookie e (getCookie_posts s) = PostRaises \<or>
           (\<exists>code headers. getCookie e (getCookie_posts s) = Reply code headers \<and>
              (code \<noteq> 200 \<or> header_cookies headers = []))"
  shows "fst (refresh_cookies_proactively e s) = False \<and>
         snd (refresh_cookies_proactively e s) = s\<lparr>getCookie_posts := Suc (getCookie_posts s)\<rparr> \<and>
         current_cookies (snd (refresh_cookies_proactively e s)) = current_cookies s \<and>
         last_refresh_time (snd (refresh_cookies_proactively e s)) = last_refresh_time s"
  using assms
  by (auto simp: refresh_cookies_proactively_def Let_def split: cookie_reply.splits)

theorem refresh_failure_keeps_state_witness:
  "header_cookies [(''Content-Type'', ''application/json'')] = [] \<and>
   fst (refresh_cookies_proactively no_cookie_env merge_state) = False \<and>
   current_cookies (snd (refresh_cookies_proactively no_cookie_env merge_state))
     = [(''A'', ''1''), (''B'', ''2'')] \<and>
   last_refresh_time (snd (refresh_cookies_proactively no_cookie_env merge_state)) = None"
proof -
  have none: "header_cookies [(''Content-Type'', ''application/json'')] = []"
    by (simp add: header_cookies_def header_cookie_def lower_ascii_def)
  have "getCookie no_cookie_env (getCookie_posts merge_state)
          = Reply 200 [(''Content-Type'', ''application/json'')]"
    by (simp add: no_cookie_env_def)
  with none have
    "getCookie no_cookie_env (getCookie_posts merge_state) = PostRaises \<or>
     (\<exists>code headers. getCookie no_cookie_env (getCookie_posts merge_state) = Reply code headers \<and>
        (code \<noteq> 200 \<or> header_cookies headers = []))"
    by simp
  from refresh_failure_keeps_state [OF this] none show ?thesis
    by (simp add: merge_state_def)
qed

section \<open>Requests sent by one call of the client\<close>

lemma should_refresh_counts:
  "getCookie_posts (snd (should_refresh_cookies e s)) = getCookie_posts s \<and>
   bundle_posts (snd (should_refresh_cookies e s)) = bundle_posts s"
  by (auto simp: should_refresh_cookies_def now_def split: option.splits)

lemma refresh_counts:
  "getCookie_posts (snd (refresh_cookies_proactively e s)) = Suc (getCookie_posts s) \<and>
   bundle_posts (snd (refresh_cookies_proactively e s)) = bundle_posts s"
  by (auto simp: refresh_cookies_proactively_def now_def Let_def split: cookie_reply.splits)

lemma ensure_fresh_counts:
  "getCookie_posts (snd (ensure_fresh_cookies e s)) \<le> getCookie_posts s + 1 \<and>
   bundle_posts (snd (ensure_fresh_cookies e s)) = bundle_posts s"
proof (cases "should_refresh_cookies e s")
  case (Pair due s1)
  with should_refresh_counts [of e s] refresh_counts [of e s1]
  show ?thesis by (simp add: ensure_fresh_cookies_def)
qed

lemma ensure_fresh_session_counts:
  "getCookie_posts (ensure_fresh_session e s) \<le> getCookie_posts s + 1 \<and>
   bundle_posts (ensure_fresh_session e s) = bundle_posts s"
  using ensure_fresh_counts [of e s]
  by (cases "ensure_fresh_cookies e s") (simp add: ensure_fresh_session_def update_session_cookies_def)

lemma is_session_expired_counts:
  "getCookie_posts (snd (is_session_expired e t s)) \<le> getCookie_posts s + 1 \<and>
   bundle_posts (snd (is_session_expired e t s)) = bundle_posts s"
proof (cases "should_refresh_cookies e s")
  case (Pair due s1)
  with should_refresh_counts [of e s] refresh_counts [of e s1]
  show ?thesis
    by (cases "refresh_cookies_proactively e s1") (auto simp: is_session_expired_def split: option.splits)
qed

lemma handle_session_error_counts:
  "getCookie_posts (snd (handle_session_error e t s)) \<le> getCookie_posts s + 2 \<and>
   bundle_posts (snd (handle_session_error e t s)) = bundle_posts s"
proof (cases "is_session_expired e (Some t) s")
  case (Pair expired s1)
  with is_session_expired_counts [of e "Some t" s] refresh_counts [of e s1]
  show ?thesis
    by (cases "refresh_cookies_proactively e s1")
       (auto simp: handle_session_error_def update_session_cookies_def)
qed

lemma post_counts:
  "getCookie_posts (snd (post_occasion_bundles e l s)) = getCookie_posts s \<and>
   bundle_posts (snd (post_occasion_bundles e l s)) = Suc (bundle_posts s)"
  by (simp add: post_occasion_bundles_def Let_def split: bundles_reply.splits)

lemma session_failure_counts:
  "getCookie_posts (snd (session_failure e r s)) \<le> getCookie_posts s + 2 \<and>
   bundle_posts (snd (session_failure e r s)) = bundle_posts s"
  using handle_session_error_counts [of e "body_text r" s]
  by (cases "handle_session_error e (body_text r) s") (simp add: session_failure_def)

lemma handle_response_counts:
  "getCookie_posts (snd (handle_response e x r s)) \<le> getCookie_posts s + 2 \<and>
   bundle_posts (snd (handle_response e x r s)) = bundle_posts s"
  using session_failure_counts [of e r s]
  by (simp add: handle_response_def split: option.splits sum.splits)

text \<open>
  Claim C5, as the code has it. One call of \<open>get_available_dates\<close> sends at most two
  requests to the availability endpoint, the first and at most one retry. It can send
  more than one request to the renewal endpoint, and never more than five: one before
  the first request, two when the session looks expired after it, and two more when the
  payload is not the expected one.
\<close>

theorem get_available_dates_requests:
  "bundle_posts (snd (get_available_dates e location_id extended_information s))
     \<le> bundle_posts s + 2 \<and>
   getCookie_posts (snd (get_available_dates e location_id extended_information s))
     \<le> getCookie_posts s + 5"
proof -
  define s1 where "s1 = ensure_fresh_session e s"
  obtain r1 s2 where p1: "post_occasion_bundles e location_id s1 = (r1, s2)"
    by (cases "post_occasion_bundles e location_id s1")
  have c1: "getCookie_posts s1 \<le> getCookie_posts s + 1" "bundle_posts s1 = bundle_posts s"
    using ensure_fresh_session_counts [of e s] by (simp_all add: s1_def)
  have c2: "getCookie_posts s2 = getCookie_posts s1" "bundle_posts s2 = Suc (bundle_posts s1)"
    using post_counts [of e location_id s1] by (simp_all add: p1)
  show ?thesis
  proof (cases r1)
    case (Inl err)
    with p1 c1 c2 show ?thesis
      by (simp add: get_available_dates_def s1_def [symmetric])
  next
    case (Inr r)
    obtain refreshed s3 where h: "handle_session_error e (body_text r) s2 = (refreshed, s3)"
      by (cases "handle_session_error e (body_text r) s2")
    have c3: "getCookie_posts s3 \<le> getCookie_posts s2 + 2" "bundle_posts s3 = bundle_posts s2"
      using handle_session_error_counts [of e "body_text r" s2] by (simp_all add: h)
    show ?thesis
    proof (cases refreshed)
      case False
      with p1 Inr h c1 c2 c3 handle_response_counts [of e extended_information r s3]
      show ?thesis
        by (simp add: get_available_dates_def s1_def [symmetric])
    next
      case True
      obtain r2 s4 where p2: "post_occasion_bundles e location_id s3 = (r2, s4)"
        by (cases "post_occasion_bundles e location_id s3")
      have c4: "getCookie_posts s4 = getCookie_posts s3" "bundle_posts s4 = Suc (bundle_posts s3)"
        using post_counts [of e location_id s3] by (simp_all add: p2)
      show ?thesis
      proof (cases r2)
        case (Inl err)
        with True p1 \<open>r1 = Inr r\<close> h p2 c1 c2 c3 c4 show ?thesis
          by (simp add: get_available_dates_def s1_def [symmetric])
      next
        case (Inr r')
        with True p1 \<open>r1 = Inr r\<close> h p2 c1 c2 c3 c4
          handle_response_counts [of e extended_information r' s4]
        show ?thesis
          by (simp add: get_available_dates_def s1_def [symmetric])
      qed
    qed
  qed
qed


text \<open>
  Claim C5 as stated fails: with a \<^verbatim>\<open>LoginValid\<close> cookie one minute from expiry and a
  renewal endpoint that cannot be reached, a call that returns an empty list of dates
  has sent three renewal requests.
\<close>

theorem get_available_dates_three_renewals:
  "fst (get_available_dates unreachable_renewal_env 1 False expiring_state) = Inr (JList []) \<and>
   \<not> getCookie_posts (snd (get_available_dates unreachable_renewal_env 1 False expiring_state))
       \<le> getCookie_posts expiring_state + 1"
  by (simp add: get_available_dates_def ensure_fresh_session_def ensure_fresh_cookies_def
      should_refresh_cookies_def get_earliest_cookie_expiration_def now_def
      refresh_cookies_proactively_def update_session_cookies_def get_current_cookies_def
      post_occasion_bundles_def handle_session_error_def is_session_expired_def
      handle_response_def dates_found_def
      expiring_state_def unreachable_renewal_env_def expiry_warning_def refresh_interval_def)

section \<open>Only the first occasion of a bundle is read\<close>

lemma map_of_on_key:
  "map_of (map (\<lambda>kv. if fst kv = k then (fst kv, f (snd kv)) else kv) items) k' =
     (if k' = k then map_option f (map_of items k) else map_of items k')"
  by (induction items) auto

lemma getitem_on_key:
  "getitem (on_key k f j) k' =
     (if k' = k then (case getitem j k of Inl err \<Rightarrow> Inl err | Inr v \<Rightarrow> Inr (f v))
      else getitem j k')"
  by (cases j) (auto simp: on_key_def map_of_on_key split: option.splits)

lemma getitem0_keep_first: "getitem0 (keep_first j) = getitem0 j"
  by (cases j) (auto simp: keep_first_def split: list.splits)

lemma occasion_field_cut:
  "occasion_field field (on_key ''occasions'' keep_first ride) = occasion_field field ride"
  by (simp add: occasion_field_def getitem_on_key getitem0_keep_first split: sum.splits)

lemma strip_ride_cut: "strip_ride (on_key ''occasions'' keep_first ride) = strip_ride ride"
  by (simp add: strip_ride_def occasion_field_cut cong: sum.case_cong)

lemma comprehension_map:
  "(\<And>x. g (f x) = g x) \<Longrightarrow> comprehension g (map f xs) = comprehension g xs"
  by (induction xs) (simp_all cong: sum.case_cong)

lemma py_iter_on_elements:
  "(\<And>x. g (f x) = g x) \<Longrightarrow>
   (case py_iter (on_elements f j) of Inl err \<Rightarrow> Inl err | Inr xs \<Rightarrow> comprehension g xs)
     = (case py_iter j of Inl err \<Rightarrow> Inl err | Inr xs \<Rightarrow> comprehension g xs)"
  by (cases j) (simp_all add: on_elements_def comprehension_map)

lemma dates_found_cut: "dates_found (first_occasions_only rides) = dates_found rides"
  unfolding dates_found_def first_occasions_only_def
  by (rule py_iter_on_elements) (rule occasion_field_cut)

lemma strip_useless_info_cut:
  "strip_useless_info (first_occasions_only rides) = strip_useless_info rides"
  unfolding strip_useless_info_def first_occasions_only_def
  by (rule py_iter_on_elements) (rule strip_ride_cut)

lemma clock_cut_env:
  "now (cut_env e) = now e"
  "get_earliest_cookie_expiration (cut_env e) = get_earliest_cookie_expiration e"
proof -
  show "now (cut_env e) = now e"
    by (rule ext) (simp add: cut_env_def now_def
          cong: if_cong option.case_cong sum.case_cong prod.case_cong cookie_reply.case_cong)
  have "strptime (cut_env e) = strptime e"
    by (simp add: cut_env_def
          cong: if_cong option.case_cong sum.case_cong prod.case_cong cookie_reply.case_cong)
  then show "get_earliest_cookie_expiration (cut_env e) = get_earliest_cookie_expiration e"
    by (intro ext) (simp add: get_earliest_cookie_expiration_def
          cong: if_cong option.case_cong sum.case_cong prod.case_cong cookie_reply.case_cong)
qed

lemma session_manager_cut_env:
  "should_refresh_cookies (cut_env e) = should_refresh_cookies e"
  "refresh_cookies_proactively (cut_env e) = refresh_cookies_proactively e"
proof -
  show "should_refresh_cookies (cut_env e) = should_refresh_cookies e"
    by (rule ext) (simp add: should_refresh_cookies_def clock_cut_env
          cong: if_cong option.case_cong sum.case_cong prod.case_cong cookie_reply.case_cong)
  have "getCookie (cut_env e) = getCookie e"
    by (simp add: cut_env_def
          cong: if_cong option.case_cong sum.case_cong prod.case_cong cookie_reply.case_cong)
  then show "refresh_cookies_proactively (cut_env e) = refresh_cookies_proactively e"
    by (intro ext) (simp add: refresh_cookies_proactively_def clock_cut_env
          cong: if_cong option.case_cong sum.case_cong prod.case_cong cookie_reply.case_cong)
qed

lemma handle_session_error_cut_env:
  "handle_session_error (cut_env e) = handle_session_error e"
  "ensure_fresh_session (cut_env e) = ensure_fresh_session e"
proof -
  have "is_session_expired (cut_env e) = is_session_expired e"
    by (intro ext) (simp add: is_session_expired_def session_manager_cut_env
          cong: if_cong option.case_cong sum.case_cong prod.case_cong cookie_reply.case_cong)
  then show "handle_session_error (cut_env e) = handle_session_error e"
    by (intro ext) (simp add: handle_session_error_def session_manager_cut_env
          cong: if_cong option.case_cong sum.case_cong prod.case_cong cookie_reply.case_cong)
  show "ensure_fresh_session (cut_env e) = ensure_fresh_session e"
    by (intro ext) (simp add: ensure_fresh_session_def ensure_fresh_cookies_def
          session_manager_cut_env
          cong: if_cong option.case_cong sum.case_cong prod.case_cong cookie_reply.case_cong)
qed

lemma post_cut_env:
  "post_occasion_bundles (cut_env e) loc s =
     (case post_occasion_bundles e loc s of
        (Inl err, s') \<Rightarrow> (Inl err, s')
      | (Inr r, s') \<Rightarrow> (Inr (cut_response r), s'))"
  by (simp add: post_occasion_bundles_def cut_env_def cut_reply_def Let_def cong: if_cong option.case_cong sum.case_cong prod.case_cong cookie_reply.case_cong
          split: bundles_reply.splits)

lemma session_failure_cut:
  "session_failure (cut_env e) (cut_response r) s = session_failure e r s"
  by (simp add: session_failure_def handle_session_error_cut_env cut_response_def
          cong: if_cong option.case_cong sum.case_cong prod.case_cong cookie_reply.case_cong)

lemma session_failure_raises: "\<exists>err s'. session_failure e r s = (Inl err, s')"
  by (cases "handle_session_error e (body_text r) s") (simp add: session_failure_def
          cong: if_cong option.case_cong sum.case_cong prod.case_cong cookie_reply.case_cong)

lemma handle_response_cut:
  "handle_response (cut_env e) extended (cut_response r) s =
     (case handle_response e extended r s of
        (Inl err, s') \<Rightarrow> (Inl err, s')
      | (Inr found, s') \<Rightarrow> (Inr (if extended then first_occasions_only found else found), s'))"
proof -
  obtain err s' where sf: "session_failure e r s = (Inl err, s')"
    using session_failure_raises by blast
  then have sf': "session_failure (cut_env e) (cut_response r) s = (Inl err, s')"
    by (simp add: session_failure_cut
          cong: if_cong option.case_cong sum.case_cong prod.case_cong cookie_reply.case_cong)
  have fields: "status_code (cut_response r) = status_code r"
      "body_json (cut_response r) = map_option cut_payload (body_json r)"
    by (simp_all add: cut_response_def)
  show ?thesis
  proof (cases "body_json r")
    case None
    then show ?thesis
      by (simp add: handle_response_def fields sf sf'
          cong: if_cong option.case_cong sum.case_cong prod.case_cong cookie_reply.case_cong)
  next
    case (Some response_data)
    then show ?thesis
      by (simp add: handle_response_def fields sf sf' cut_payload_def getitem_on_key
            dates_found_cut cong: if_cong option.case_cong sum.case_cong prod.case_cong cookie_reply.case_cong
          split: sum.splits)
  qed
qed

text \<open>
  Claim C10. Whatever the remote service answers, cutting every bundle of every payload
  to its first occasion changes nothing of what the client returns without the detail
  flag (the dates, the exception, the state), and nothing of what the monitoring loop
  gets with it, \<open>strip_useless_info\<close> applied to the bundles returned. So no occasion
  after the first of a bundle is in the dates or in the stripped records.
\<close>

theorem later_occasions_never_read:
  "get_available_dates (cut_env e) location_id False s = get_available_dates e location_id False s \<and>
   fetch_stripped (cut_env e) location_id s = fetch_stripped e location_id s \<and>
   dates_found (first_occasions_only rides) = dates_found rides \<and>
   strip_useless_info (first_occasions_only rides) = strip_useless_info rides"
proof -
  define s1 where "s1 = ensure_fresh_session e s"
  have get: "get_available_dates (cut_env e) location_id extended s =
     (case get_available_dates e location_id extended s of
        (Inl err, s') \<Rightarrow> (Inl err, s')
      | (Inr found, s') \<Rightarrow> (Inr (if extended then first_occasions_only found else found), s'))"
    for extended
  proof -
    obtain r1 s2 where p1: "post_occasion_bundles e location_id s1 = (r1, s2)"
      by (cases "post_occasion_bundles e location_id s1")
    show ?thesis
    proof (cases r1)
      case (Inl err)
      with p1 show ?thesis
        by (simp add: get_available_dates_def handle_session_error_cut_env post_cut_env
              s1_def [symmetric])
    next
      case (Inr r)
      obtain refreshed s3 where h: "handle_session_error e (body_text r) s2 = (refreshed, s3)"
        by (cases "handle_session_error e (body_text r) s2")
      have same_text: "body_text (cut_response r) = body_text r"
        by (simp add: cut_response_def)
      show ?thesis
      proof (cases refreshed)
        case False
        with p1 Inr h show ?thesis
          by (simp add: get_available_dates_def handle_session_error_cut_env post_cut_env
                s1_def [symmetric] same_text handle_response_cut)
      next
        case True
        obtain r2 s4 where p2: "post_occasion_bundles e location_id s3 = (r2, s4)"
          by (cases "post_occasion_bundles e location_id s3")
        from True p1 Inr h p2 show ?thesis
          by (cases r2)
             (simp_all add: get_available_dates_def handle_session_error_cut_env post_cut_env
                s1_def [symmetric] same_text handle_response_cut)
      qed
    qed
  qed
  have plain: "get_available_dates (cut_env e) location_id False s
                 = get_available_dates e location_id False s"
    by (cases "get_available_dates e location_id False s")
       (simp add: get [of False] split: sum.splits)
  have detailed: "fetch_stripped (cut_env e) location_id s = fetch_stripped e location_id s"
    by (cases "get_available_dates e location_id True s")
       (simp add: fetch_stripped_def get [of True] strip_useless_info_cut split: sum.splits)
  from plain detailed show ?thesis
    by (simp add: dates_found_cut strip_useless_info_cut)
qed

section \<open>The monitoring cycle\<close>

lemma rows_inserted:
  "map ride_columns
     (filter (\<lambda>r. examination_type r = exam)
        (rows (fold (\<lambda>ir. insert_ride exam (stamp (fst ir)) (snd ir)) irs d)))
     = map ride_columns (filter (\<lambda>r. examination_type r = exam) (rows d)) @ map snd irs"
  by (induction irs arbitrary: d) (simp_all add: insert_ride_def)

lemma rows_inserted_elsewhere:
  "filter (\<lambda>r. examination_type r \<noteq> exam)
     (rows (fold (\<lambda>ir. insert_ride exam (stamp (fst ir)) (snd ir)) irs d))
     = filter (\<lambda>r. examination_type r \<noteq> exam) (rows d)"
  by (induction irs arbitrary: d) (simp_all add: insert_ride_def)

lemma store_rides_rows:
  "map ride_columns
     (filter (\<lambda>r. examination_type r = exam) (rows (store_rides stamp rides exam d))) = rides"
  "filter (\<lambda>r. examination_type r \<noteq> exam) (rows (store_rides stamp rides exam d))
     = filter (\<lambda>r. examination_type r \<noteq> exam) (rows d)"
  by (simp_all add: store_rides_def rows_inserted rows_inserted_elsewhere)

lemma attempts_all_retried:
  "(\<And>k. retried (fetch a k loc)) \<Longrightarrow> \<exists>c'. attempts a loc n c acc = Inr (c', acc)"
proof (induction n arbitrary: c)
  case 0
  show ?case by simp
next
  case (Suc n)
  from Suc.prems [of "fetches c"] Suc.IH [OF Suc.prems, of "fetched c"]
  show ?case
    by (auto simp: retried_def split: sum.splits error.splits)
qed

text \<open>
  Claim C3, as the code has it. Take a cycle in which the loop over the locations ends,
  with the batch it has collected. A location all of whose attempts end in an exception
  the loop retries on leaves the batch as it was. If the batch is not empty, the rows
  stored for the examination type are afterwards exactly the rides of the batch, in
  order, and the rows of other types are untouched. If the batch is empty,
  \<open>store_rides\<close> is not called and the database is the one of the cycle before. In both
  cases the cycle reports the rides of the comparable set that were not in the previous
  one and those of the previous one that are not in it, and keeps the set for the next
  cycle.
\<close>

theorem run_cycle_stores_batch:
  assumes "poll_locations a max_attempts location_ids (calls m) [] = Inr (c, batch)"
  shows "case run_cycle a stamp max_attempts exam location_ids m of
           Inl err \<Rightarrow> False
         | Inr (ch, m') \<Rightarrow>
             (batch \<noteq> [] \<longrightarrow>
                map ride_columns (filter (\<lambda>r. examination_type r = exam) (rows (db m')))
                  = batch \<and>
                filter (\<lambda>r. examination_type r \<noteq> exam) (rows (db m'))
                  = filter (\<lambda>r. examination_type r \<noteq> exam) (rows (db m))) \<and>
             (batch = [] \<longrightarrow> db m' = db m) \<and>
             new_rides ch = get_rides_as_set (db m') exam - last_available_rides m \<and>
             removed_rides ch = last_available_rides m - get_rides_as_set (db m') exam \<and>
             last_available_rides m' = get_rides_as_set (db m') exam \<and>
             (\<forall>loc n c0 acc. (\<forall>k. retried (fetch a k loc)) \<longrightarrow>
                (\<exists>c'. attempts a loc n c0 acc = Inr (c', acc)))"
  using assms attempts_all_retried [of a]
  by (simp add: run_cycle_def Let_def store_rides_rows)

theorem run_cycle_stores_batch_witness:
  "poll_locations serving_api 3 [1000140] (calls stored_before) []
     = Inr (\<lparr>fetches = 1, refreshes = 0\<rparr>, [stockholm_ride]) \<and>
   (case run_cycle serving_api (\<lambda>i. ''2025-01-02 08:00:00'') 3 ''Kunskapsprov'' [1000140]
           stored_before of
      Inl err \<Rightarrow> False
    | Inr (ch, m') \<Rightarrow>
        map ride_columns (filter (\<lambda>r. examination_type r = ''Kunskapsprov'') (rows (db m')))
          = [stockholm_ride])"
proof -
  have poll: "poll_locations serving_api 3 [1000140] (calls stored_before) []
     = Inr (\<lparr>fetches = 1, refreshes = 0\<rparr>, [stockholm_ride])"
    by (simp add: serving_api_def stored_before_def fetched_def numeral_3_eq_3)
  from run_cycle_stores_batch [OF poll, where stamp = "\<lambda>i. ''2025-01-02 08:00:00''"
      and exam = "''Kunskapsprov''"] poll
  show ?thesis
    by (simp add: stockholm_ride_def split: sum.splits prod.splits)
qed

text \<open>
  Claim C3 as stated fails for the empty batch: when every request of a cycle is answered
  with status 500, nothing is collected, \<open>store_rides\<close> is not called, and the ride
  stored by the cycle before is still the content of the database and of the comparable
  set; it is not reported as removed.
\<close>

theorem run_cycle_empty_batch_keeps_rows:
  "poll_locations failing_api 3 [1000140] (calls stored_before) []
     = Inr (\<lparr>fetches = 3, refreshes = 0\<rparr>, []) \<and>
   (case run_cycle failing_api (\<lambda>i. ''2025-01-02 08:00:00'') 3 ''Kunskapsprov'' [1000140]
           stored_before of
      Inl err \<Rightarrow> False
    | Inr (ch, m') \<Rightarrow>
        map ride_columns (filter (\<lambda>r. examination_type r = ''Kunskapsprov'') (rows (db m')))
          = [stockholm_ride] \<and>
        get_rides_as_set (db m') ''Kunskapsprov'' = last_available_rides stored_before \<and>
        get_rides_as_set (db m') ''Kunskapsprov'' \<noteq> {} \<and>
        removed_rides ch = {})"
proof -
  let ?kept = "get_rides_as_set (db stored_before) ''Kunskapsprov''"
  have poll: "poll_locations failing_api 3 [1000140] (calls stored_before) []
     = Inr (\<lparr>fetches = 3, refreshes = 0\<rparr>, [])"
    by (simp add: failing_api_def stored_before_def fetched_def numeral_3_eq_3)
  have run: "run_cycle failing_api (\<lambda>i. ''2025-01-02 08:00:00'') 3 ''Kunskapsprov'' [1000140]
               stored_before
     = Inr (\<lparr>new_rides = ?kept - last_available_rides stored_before,
              removed_rides = last_available_rides stored_before - ?kept\<rparr>,
            \<lparr>calls = \<lparr>fetches = 3, refreshes = 0\<rparr>, db = db stored_before,
             last_available_rides = ?kept\<rparr>)"
    by (simp only: run_cycle_def poll) (simp add: Let_def)
  have rows: "rows (db stored_before)
     = [\<lparr>row_id = 1, ride_columns = stockholm_ride, examination_type = ''Kunskapsprov'',
         created_at = ''2025-01-01 08:00:00'', updated_at = ''2025-01-01 08:00:00''\<rparr>]"
    by (simp add: stored_before_def)
  have kept: "?kept = last_available_rides stored_before"
    by (simp add: get_rides_as_set_def get_all_rides_def rows ride_dict_def stockholm_ride_def)
       (simp add: stored_before_def)
  have "last_available_rides stored_before \<noteq> {}"
    by (simp add: stored_before_def)
  with poll run kept rows show ?thesis
    by simp
qed

section \<open>The client on payloads that signal failure or lack the expected structure\<close>

lemma unreachable_renewal:
  "refresh_cookies_proactively (answering t parsed) s
     = (False, s\<lparr>getCookie_posts := Suc (getCookie_posts s)\<rparr>)"
  by (simp add: refresh_cookies_proactively_def answering_def)

lemma never_due_without_cookies:
  "current_cookies s = [] \<Longrightarrow> last_refresh_time s = None \<Longrightarrow>
   should_refresh_cookies (answering t parsed) s = (False, s)"
  by (simp add: should_refresh_cookies_def get_earliest_cookie_expiration_def)

lemma null_reference_lowered:
  "map lower_ascii null_reference_text = ''{\"status\":500,\"type\":\"nullreferenceexception\"}''"
  by (simp add: null_reference_text_def lower_ascii_def)

lemma null_reference_matches:
  "list_ex (\<lambda>p. re_search p null_reference_text) expired_patterns"
  by (simp add: expired_patterns_def null_reference_lowered)

lemma no_occasion_lowered: "map lower_ascii no_occasion_text = no_occasion_text"
  by (simp add: no_occasion_text_def lower_ascii_def)

lemma no_occasion_matches_nothing:
  "\<not> list_ex (\<lambda>p. re_search p no_occasion_text) expired_patterns"
  by (simp add: expired_patterns_def no_occasion_lowered) (simp add: no_occasion_text_def)

lemma answering_fields:
  "occasion_bundles (answering t parsed) k loc
     = Response \<lparr>status_code = 200, body_text = t, body_json = parsed\<rparr>"
  "getCookie (answering t parsed) k = PostRaises"
  by (simp_all add: answering_def)

lemma fresh_fields:
  "current_cookies fresh_state = []"
  "last_refresh_time fresh_state = None"
  "bundle_posts fresh_state = 0"
  "getCookie_posts fresh_state = 0"
  by (simp_all add: fresh_state_def)

lemma first_post:
  "post_occasion_bundles (answering t parsed) loc
     (ensure_fresh_session (answering t parsed) fresh_state)
     = (Inr \<lparr>status_code = 200, body_text = t, body_json = parsed\<rparr>,
        fresh_state\<lparr>bundle_posts := 1\<rparr>)"
  by (simp add: post_occasion_bundles_def ensure_fresh_session_def ensure_fresh_cookies_def
      never_due_without_cookies update_session_cookies_def get_current_cookies_def
      fresh_fields answering_fields)
     (simp add: fresh_state_def)

text \<open>
  Claim C1 at the scenario of the specification: the availability endpoint answers 200
  with \<^verbatim>\<open>{"status":500,"type":"NullReferenceException"}\<close> and every renewal fails. The
  text matches a session-expiry pattern, two renewals are tried and fail, and the call
  raises \<^verbatim>\<open>HTTPStatus(200)\<close>, not \<^verbatim>\<open>SessionExpiredError\<close>.
\<close>

theorem session_expired_scenario_raises_status:
  "get_available_dates (answering null_reference_text (Some null_reference_json)) 1000140 True
     fresh_state
   = (Inl (HTTPStatus 200), fresh_state\<lparr>bundle_posts := 1, getCookie_posts := 2\<rparr>)"
proof -
  have expired: "is_session_expired (answering null_reference_text parsed)
      (Some null_reference_text) s = (True, s)"
    if "current_cookies s = []" "last_refresh_time s = None" for s parsed
    using that null_reference_matches
    by (simp add: is_session_expired_def never_due_without_cookies)
       (simp add: null_reference_text_def)
  have handled: "handle_session_error (answering null_reference_text parsed)
      null_reference_text s = (False, s\<lparr>getCookie_posts := Suc (getCookie_posts s)\<rparr>)"
    if "current_cookies s = []" "last_refresh_time s = None" for s parsed
    using that by (simp add: handle_session_error_def expired unreachable_renewal)
  have failure: "session_failure (answering null_reference_text parsed)
      \<lparr>status_code = 200, body_text = null_reference_text, body_json = j\<rparr> s
      = (Inl (HTTPStatus 200), s\<lparr>getCookie_posts := Suc (getCookie_posts s)\<rparr>)"
    if "current_cookies s = []" "last_refresh_time s = None" for s parsed j
    using that by (simp add: session_failure_def handled)
  have response: "handle_response (answering null_reference_text parsed) True
      \<lparr>status_code = 200, body_text = null_reference_text, body_json = Some null_reference_json\<rparr> s
      = (Inl (HTTPStatus 200), s\<lparr>getCookie_posts := Suc (getCookie_posts s)\<rparr>)"
    if "current_cookies s = []" "last_refresh_time s = None" for s parsed
    using that
    by (simp add: handle_response_def failure null_reference_json_def)
  show ?thesis
    by (simp add: get_available_dates_def first_post handled response fresh_fields)
qed

text \<open>
  Claim C4 at three payloads that parse as JSON and lack the expected structure, each
  sent with status 200: the object \<^verbatim>\<open>{}\<close>, the value \<^verbatim>\<open>null\<close>, and a payload whose
  only bundle has an empty list of occasions. The call raises \<^verbatim>\<open>KeyError\<close>,
  \<^verbatim>\<open>TypeError\<close> and \<^verbatim>\<open>IndexError\<close>: none is a failure kind of the client, and none
  is caught by the monitoring loop.
\<close>

theorem malformed_payload_escapes:
  "fst (get_available_dates (answering ''{}'' (Some (JObj []))) 1000140 True fresh_state)
     = Inl KeyError \<and>
   fst (get_available_dates (answering ''null'' (Some JNull)) 1000140 True fresh_state)
     = Inl TypeError \<and>
   fst (get_available_dates (answering no_occasion_text (Some no_occasion_json)) 1000140 True
          fresh_state)
     = Inl IndexError"
proof -
  have quiet: "handle_session_error (answering t parsed) t s = (False, s)"
    if "current_cookies s = []" "last_refresh_time s = None"
       "\<not> list_ex (\<lambda>p. re_search p t) expired_patterns" for t parsed s
    using that
    by (simp add: handle_session_error_def is_session_expired_def never_due_without_cookies)
  have braces: "\<not> list_ex (\<lambda>p. re_search p ''{}'') expired_patterns"
    by (simp add: expired_patterns_def lower_ascii_def)
  have null: "\<not> list_ex (\<lambda>p. re_search p ''null'') expired_patterns"
    by (simp add: expired_patterns_def lower_ascii_def)
  have "fst (get_available_dates (answering ''{}'' (Some (JObj []))) 1000140 True fresh_state)
     = Inl KeyError"
    by (simp add: get_available_dates_def first_post quiet braces handle_response_def
        fresh_fields)
  moreover
  have "fst (get_available_dates (answering ''null'' (Some JNull)) 1000140 True fresh_state)
     = Inl TypeError"
    by (simp add: get_available_dates_def first_post quiet null handle_response_def
        fresh_fields)
  moreover
  have "fst (get_available_dates (answering no_occasion_text (Some no_occasion_json)) 1000140
          True fresh_state) = Inl IndexError"
    by (simp add: get_available_dates_def first_post quiet no_occasion_matches_nothing
        handle_response_def fresh_fields)
       (simp add: no_occasion_json_def dates_found_def occasion_field_def)
  ultimately show ?thesis by simp
qed

section \<open>The comparable set\<close>

text \<open>
  Claim C2 at a batch stored twice. The comparable set holds, for every row, the five
  fields and the row's \<^verbatim>\<open>created_at\<close>. Storing the same ride again one second later
  gives a set that differs from the one before, and the ride is reported as new and as
  removed.
\<close>

theorem same_batch_stored_again_differs:
  "get_rides_as_set
     (store_rides (\<lambda>i. ''2025-01-02 08:00:01'') [stockholm_ride] ''Kunskapsprov''
        (store_rides (\<lambda>i. ''2025-01-02 08:00:00'') [stockholm_ride] ''Kunskapsprov''
           empty_database))
     ''Kunskapsprov''
   - get_rides_as_set
       (store_rides (\<lambda>i. ''2025-01-02 08:00:00'') [stockholm_ride] ''Kunskapsprov''
          empty_database)
       ''Kunskapsprov''
   = {[(''name'', ''Kunskapsprov B''), (''date'', ''2025-01-15''), (''time'', ''10:00''),
       (''location'', ''Stockholm''), (''cost'', ''325kr''),
       (''created_at'', ''2025-01-02 08:00:01'')]}"
  by (simp add: get_rides_as_set_def get_all_rides_def store_rides_def insert_ride_def
      ride_dict_def empty_database_def stockholm_ride_def)

section \<open>When every renewal fails\<close>

lemma refresh_fails:
  "renewal_fails (getCookie e (getCookie_posts s)) \<Longrightarrow> \<not> fst (refresh_cookies_proactively e s)"
  by (auto simp: renewal_fails_def refresh_cookies_proactively_def Let_def
      split: cookie_reply.splits)

lemma handle_session_error_fails:
  assumes "\<forall>k. renewal_fails (getCookie e k)"
  shows "\<not> fst (handle_session_error e t s)"
proof (cases "is_session_expired e (Some t) s")
  case (Pair expired s1)
  from assms have "\<not> fst (refresh_cookies_proactively e s1)"
    by (simp add: refresh_fails)
  with Pair show ?thesis
    by (cases "refresh_cookies_proactively e s1") (simp add: handle_session_error_def)
qed

lemma subscript_errors:
  "getitem j k \<noteq> Inl SessionExpiredError"
  "getitem0 j \<noteq> Inl SessionExpiredError"
  "py_iter j \<noteq> Inl SessionExpiredError"
  by (cases j; simp split: option.splits list.splits)+

lemma comprehension_errors:
  "(\<And>x. f x \<noteq> Inl SessionExpiredError) \<Longrightarrow> comprehension f xs \<noteq> Inl SessionExpiredError"
  by (induction xs) (auto split: sum.splits)

lemma dates_found_errors: "dates_found rides \<noteq> Inl SessionExpiredError"
proof -
  have "occasion_field field ride \<noteq> Inl SessionExpiredError" for field ride
    using subscript_errors by (auto simp: occasion_field_def split: sum.splits)
  then show ?thesis
    using subscript_errors(3) [of rides] comprehension_errors [of "occasion_field ''date''"]
    by (auto simp: dates_found_def split: sum.splits)
qed

lemma handle_response_not_expired:
  assumes "\<forall>k. renewal_fails (getCookie e k)"
  shows "fst (handle_response e extended r s) \<noteq> Inl SessionExpiredError"
proof -
  have "fst (session_failure e r s) \<noteq> Inl SessionExpiredError"
    using handle_session_error_fails [OF assms, of "body_text r" s]
    by (cases "handle_session_error e (body_text r) s") (simp add: session_failure_def)
  then show ?thesis
    using subscript_errors(1) dates_found_errors
    by (auto simp: handle_response_def split: option.splits sum.splits)
qed

text \<open>
  A call during which every renewal request fails never raises
  \<^verbatim>\<open>SessionExpiredError\<close>, whatever the availability endpoint answers and whatever the
  state of the manager: the exception documented for a session that could not be
  refreshed is raised only after a renewal that succeeded.
\<close>

theorem failed_renewals_never_session_expired:
  assumes "\<forall>k. renewal_fails (getCookie e k)"
  shows "fst (get_available_dates e location_id extended s) \<noteq> Inl SessionExpiredError"
proof -
  define s1 where "s1 = ensure_fresh_session e s"
  obtain r1 s2 where p1: "post_occasion_bundles e location_id s1 = (r1, s2)"
    by (cases "post_occasion_bundles e location_id s1")
  have posted: "r \<noteq> Inl SessionExpiredError"
    if "post_occasion_bundles e location_id s' = (r, s'')" for r s' s''
    using that by (auto simp: post_occasion_bundles_def Let_def split: bundles_reply.splits)
  show ?thesis
  proof (cases r1)
    case (Inl err)
    with p1 posted [OF p1] show ?thesis
      by (simp add: get_available_dates_def s1_def [symmetric])
  next
    case (Inr r)
    obtain again s3 where h: "handle_session_error e (body_text r) s2 = (again, s3)"
      by (cases "handle_session_error e (body_text r) s2")
    with handle_session_error_fails [OF assms, of "body_text r" s2] have "\<not> again"
      by simp
    with p1 Inr h handle_response_not_expired [OF assms, of extended r s3] show ?thesis
      by (simp add: get_available_dates_def s1_def [symmetric])
  qed
qed

theorem failed_renewals_never_session_expired_witness:
  "renewal_fails (getCookie (answering null_reference_text (Some null_reference_json)) 0) \<and>
   fst (get_available_dates (answering null_reference_text (Some null_reference_json)) 1000140
          True fresh_state) \<noteq> Inl SessionExpiredError"
proof -
  have "\<forall>k. renewal_fails (getCookie (answering null_reference_text (Some null_reference_json)) k)"
    by (simp add: renewal_fails_def answering_fields)
  from failed_renewals_never_session_expired [OF this] this show ?thesis
    by simp
qed

section \<open>A payload with one occasion\<close>

lemma one_occasion_lowered:
  "map lower_ascii one_occasion_text =
     ''{\"status\":200,\"data\":{\"bundles\":[{\"occasions\":[{\"date\":\"2025-03-01\",\"time\":\"09:00\",\"locationname\":\"stockholm\",\"cost\":\"500kr\",\"name\":\"x\"}]}]}}''"
  by (simp add: one_occasion_text_def lower_ascii_def)

lemma one_occasion_matches: "re_search (DotStar ''status'' ''500'') one_occasion_text"
  by (simp add: one_occasion_lowered)

text \<open>
  The availability endpoint answers 200 with one bundle of one occasion, and no renewal
  succeeds. The monitoring loop gets one record with the fields of the occasion. On the
  way the text was taken for an expired session, since \<^verbatim>\<open>status.*500\<close> matches from
  \<^verbatim>\<open>"status":200\<close> to the cost \<^verbatim>\<open>500kr\<close>, and one renewal was tried.
\<close>

theorem one_occasion_fetched:
  "fetch_stripped (answering one_occasion_text (Some one_occasion_json)) 1000140 fresh_state
   = (Inr [[(''time'', JStr ''09:00''), (''location'', JStr ''Stockholm''),
            (''cost'', JStr ''500kr''), (''date'', JStr ''2025-03-01''),
            (''name'', JStr ''X'')]],
      fresh_state\<lparr>bundle_posts := 1, getCookie_posts := 1\<rparr>)"
proof -
  have "list_ex (\<lambda>p. re_search p one_occasion_text) expired_patterns"
    using one_occasion_matches by (simp add: expired_patterns_def)
  moreover have "one_occasion_text \<noteq> []"
    by (simp add: one_occasion_text_def)
  ultimately have expired: "is_session_expired (answering one_occasion_text parsed)
      (Some one_occasion_text) s = (True, s)"
    if "current_cookies s = []" "last_refresh_time s = None" for s parsed
    using that by (simp add: is_session_expired_def never_due_without_cookies)
  have handled: "handle_session_error (answering one_occasion_text parsed)
      one_occasion_text s = (False, s\<lparr>getCookie_posts := Suc (getCookie_posts s)\<rparr>)"
    if "current_cookies s = []" "last_refresh_time s = None" for s parsed
    using that by (simp add: handle_session_error_def expired unreachable_renewal)
  have response: "handle_response e True
      \<lparr>status_code = 200, body_text = one_occasion_text, body_json = Some one_occasion_json\<rparr> s
      = (Inr (JList [JObj [(''occasions'', JList
              [JObj [(''date'', JStr ''2025-03-01''), (''time'', JStr ''09:00''),
                     (''locationName'', JStr ''Stockholm''), (''cost'', JStr ''500kr''),
                     (''name'', JStr ''X'')]])]]), s)" for e s
    by (simp add: handle_response_def one_occasion_json_def dates_found_def occasion_field_def)
  show ?thesis
    by (simp add: fetch_stripped_def get_available_dates_def first_post handled response
        fresh_fields strip_useless_info_def strip_ride_def occasion_field_def)
qed

end
